theory Spec2Isabelle
  imports Complex_Main
begin

section \<open>Data model of \<open>pnl.py\<close>\<close>

text \<open>
  Python floats are modelled as \<^typ>\<open>real\<close> and Python integers as \<^typ>\<open>int\<close>.
  The theorems below only depend on the comparisons and on the branch structure of the
  code, not on how a float rounds.
\<close>

text \<open>\<open>HISTORY_SIZE = 20\<close>: the \<open>maxlen\<close> of both history deques.\<close>

definition HISTORY_SIZE :: nat where
  "HISTORY_SIZE = 20"

text \<open>The dictionary \<open>SharedState.strategy_params\<close>.\<close>

record params =
  momentum_weight :: real
  forecast_weight :: real
  strong_momentum_threshold :: int
  medium_momentum_threshold :: int
  aggressive_factor :: real

text \<open>The dictionary \<open>signal_data\<close> that \<open>determine_trade_volume\<close> appends to
  \<open>trade_history\<close>; its keys carry the prefix \<open>sig_\<close>.\<close>

record signal_data =
  sig_conn_id :: int
  sig_timestamp :: real
  sig_momentum :: real
  sig_forecast :: real
  sig_combined_signal :: real
  sig_trade_volume :: int
  sig_position :: int

text \<open>The dictionary \<open>perf_data\<close> that the state handler appends to
  \<open>performance_history\<close>; its keys carry the prefix \<open>perf_\<close>. The handler is the only
  writer and sets every key, so the defaults of the optimizer's \<open>p.get(key, 0)\<close> are
  never taken.\<close>

record perf_data =
  perf_conn_id :: int
  perf_timestamp :: real
  perf_momentum :: real
  perf_forecast :: real
  perf_position :: int
  perf_trade_volume :: int
  perf_pnl_change :: real
  perf_price :: real
  perf_total_pnl :: real

text \<open>One entry of \<open>SharedState.connection_performance\<close>.\<close>

record conn_perf =
  last_pnl :: real
  trades_made :: int
  successful_trades :: int

text \<open>The class \<open>SharedState\<close>. The \<open>asyncio.Lock\<close> is left out: each function
  below is the code of one task, run without another task in between.\<close>

record shared_state =
  strategy_params :: params
  trade_history :: "signal_data list"
  performance_history :: "perf_data list"
  last_optimization :: real
  optimization_interval :: real
  connection_performance :: "int \<rightharpoonup> conn_perf"

text \<open>\<open>SharedState.__init__\<close>; the argument is the reading of \<open>time.time()\<close>.\<close>

definition SharedState_init :: "real \<Rightarrow> shared_state" where
  "SharedState_init now =
     \<lparr> strategy_params =
         \<lparr> momentum_weight = 0.6, forecast_weight = 0.4,
           strong_momentum_threshold = 10, medium_momentum_threshold = 5,
           aggressive_factor = 1.5 \<rparr>,
       trade_history = [],
       performance_history = [],
       last_optimization = now,
       optimization_interval = 30,
       connection_performance = Map.empty \<rparr>"

text \<open>\<open>deque(maxlen=HISTORY_SIZE).append\<close>: a full deque drops its oldest (leftmost)
  element before the new one is added on the right.\<close>

definition deque_append :: "'a list \<Rightarrow> 'a \<Rightarrow> 'a list" where
  "deque_append xs x =
     (if length xs \<ge> HISTORY_SIZE then tl xs @ [x] else xs @ [x])"

text \<open>Python's built-in \<open>round\<close> on a float: nearest integer, ties to the even one.\<close>

definition py_round :: "real \<Rightarrow> int" where
  "py_round x =
     (let f = \<lfloor>x\<rfloor>; d = x - of_int f
      in if d < 1/2 then f
         else if d > 1/2 then f + 1
         else if even f then f else f + 1)"

section \<open>The signal processor\<close>

text \<open>\<open>determine_trade_volume\<close>. The extra argument \<open>now\<close> is the reading of
  \<open>time.time()\<close> for the timestamp; the global \<open>shared_state\<close> is passed in and
  returned with the signal record appended.\<close>

definition determine_trade_volume ::
  "real \<Rightarrow> real \<Rightarrow> int \<Rightarrow> int \<Rightarrow> int \<Rightarrow> params \<Rightarrow> real \<Rightarrow> shared_state
     \<Rightarrow> int \<times> shared_state" where
  "determine_trade_volume forecast momentum position position_limit conn_id ps now s =
     (let momentum_signal = tanh (momentum / 10);
          forecast_signal = tanh (forecast * 2);
          combined_signal =
            (momentum_signal * momentum_weight ps) + (forecast_signal * forecast_weight ps);
          raw_volume = combined_signal * 3 * aggressive_factor ps;
          trade_volume =
            (if raw_volume > 0 then
               (let max_buy = position_limit - position
                in min (max 0 (py_round raw_volume)) max_buy)
             else if raw_volume < 0 then
               (let max_sell = position + position_limit
                in max (- max_sell) (min 0 (py_round raw_volume)))
             else 0);
          signal =
            \<lparr> sig_conn_id = conn_id, sig_timestamp = now, sig_momentum = momentum,
              sig_forecast = forecast, sig_combined_signal = combined_signal,
              sig_trade_volume = trade_volume, sig_position = position \<rparr>
      in (trade_volume, s\<lparr>trade_history := deque_append (trade_history s) signal\<rparr>))"

section \<open>The strategy optimizer\<close>

text \<open>The exceptions that the modelled code can raise.\<close>

datatype py_exception = StatisticsError | ZeroDivisionError | KeyError | CancelledError

text \<open>\<open>statistics.mean\<close>: raises \<open>StatisticsError\<close> on an empty list.\<close>

definition mean :: "real list \<Rightarrow> py_exception + real" where
  "mean xs = (if xs = [] then Inl StatisticsError else Inr (sum_list xs / real (length xs)))"

text \<open>Float division \<open>a / b\<close>: raises \<open>ZeroDivisionError\<close> when \<open>b\<close> is zero.\<close>

definition py_div :: "real \<Rightarrow> real \<Rightarrow> py_exception + real" where
  "py_div a b = (if b = 0 then Inl ZeroDivisionError else Inr (a / b))"

text \<open>The \<open>for p in recent_performances\<close> loop of \<open>optimize_strategy\<close>; the pair holds
  \<open>momentum_correlations\<close> and \<open>forecast_correlations\<close>.\<close>

fun collect_correlations :: "perf_data list \<Rightarrow> real list \<times> real list \<Rightarrow> real list \<times> real list" where
  "collect_correlations [] (mc, fc) = (mc, fc)"
| "collect_correlations (p # rest) (mc, fc) =
     (if perf_pnl_change p > 0 \<and> perf_trade_volume p \<noteq> 0 then
        (if \<bar>perf_momentum p\<bar> > \<bar>perf_forecast p\<bar>
         then collect_correlations rest (mc @ [1], fc @ [0.5])
         else collect_correlations rest (mc @ [0.5], fc @ [1]))
      else collect_correlations rest (mc, fc))"

text \<open>\<open>optimize_strategy\<close>, the body run under the lock. \<open>current_time\<close> is the reading
  of \<open>time.time()\<close>. The result is the exception raised, if any, and the shared state as
  the call leaves it.\<close>

definition optimize_strategy :: "real \<Rightarrow> shared_state \<Rightarrow> py_exception option \<times> shared_state" where
  "optimize_strategy current_time s =
     (if current_time - last_optimization s < optimization_interval s
         \<or> length (performance_history s) < 5
      then (None, s)
      else
        (let s1 = s\<lparr>last_optimization := current_time\<rparr>
         in if performance_history s1 \<noteq> [] then
           (let recent_performances = performance_history s1
            in case mean (map perf_pnl_change recent_performances) of
                 Inl e \<Rightarrow> (Some e, s1)
               | Inr avg_profit \<Rightarrow>
                   if avg_profit > 5 then
                     (case collect_correlations recent_performances ([], []) of
                        (momentum_correlations, forecast_correlations) \<Rightarrow>
                          if momentum_correlations \<noteq> [] \<and> forecast_correlations \<noteq> [] then
                            (case mean momentum_correlations of
                               Inl e \<Rightarrow> (Some e, s1)
                             | Inr avg_momentum_corr \<Rightarrow>
                            (case mean forecast_correlations of
                               Inl e \<Rightarrow> (Some e, s1)
                             | Inr avg_forecast_corr \<Rightarrow>
                            (let total = avg_momentum_corr + avg_forecast_corr
                             in case py_div avg_momentum_corr total of
                                  Inl e \<Rightarrow> (Some e, s1)
                                | Inr mw \<Rightarrow>
                            (let s2 = s1\<lparr>strategy_params :=
                                         (strategy_params s1)\<lparr>momentum_weight := mw\<rparr>\<rparr>
                             in case py_div avg_forecast_corr total of
                                  Inl e \<Rightarrow> (Some e, s2)
                                | Inr fw \<Rightarrow>
                            (let s3 = s2\<lparr>strategy_params :=
                                         (strategy_params s2)\<lparr>forecast_weight := fw\<rparr>\<rparr>
                             in (None,
                                 s3\<lparr>strategy_params := (strategy_params s3)
                                      \<lparr>aggressive_factor :=
                                         min 2.0 (aggressive_factor (strategy_params s3) + 0.1)\<rparr>\<rparr>))))))
                          else (None, s1))
                   else if avg_profit < - 5 then
                     (None,
                      s1\<lparr>strategy_params := (strategy_params s1)
                           \<lparr>momentum_weight := 0.5,
                            forecast_weight := 0.5,
                            aggressive_factor :=
                              max 1.0 (aggressive_factor (strategy_params s1) - 0.2)\<rparr>\<rparr>)
                   else (None, s1))
         else (None, s1)))"

section \<open>The session worker\<close>

text \<open>\<open>PLAYER_ID\<close>.\<close>

definition PLAYER_ID :: string where
  "PLAYER_ID = ''50cc97f7-e061-519e-862d-25c882cab50b''"

text \<open>The \<open>data\<close> object of an inbound envelope: the keys that the handlers read, each
  absent (\<open>None\<close>) or present with a value of the type the protocol gives it.\<close>

record data_obj =
  d_player_id :: "string option"
  d_price_forecast :: "real option"
  d_momentum :: "real option"
  d_position :: "int option"
  d_position_limit :: "int option"
  d_price :: "real option"
  d_pnl :: "real option"
  d_impact :: "int option"

text \<open>A decoded inbound message \<open>response_data\<close>: \<open>event\<close> is
  \<open>response_data.get("event")\<close>, and \<open>data\<close> is \<open>None\<close> when the key \<open>"data"\<close> is
  not in the message.\<close>

record envelope =
  event :: "string option"
  data :: "data_obj option"

text \<open>\<open>d.get(key, default)\<close> on an optional key.\<close>

definition dict_get :: "'a option \<Rightarrow> 'a \<Rightarrow> 'a" where
  "dict_get v dflt = (case v of None \<Rightarrow> dflt | Some x \<Rightarrow> x)"

text \<open>The messages the worker sends, and what a handler does to the outside: a message
  sent on the websocket, or the game-over line printed with the final PnL. The other
  \<open>print\<close> calls are left out.\<close>

datatype out_msg = Start_message | Trade_message int | Skip_message

datatype effect = Send out_msg | Print_game_over real

text \<open>\<open>handle_puzzle_impact\<close>.\<close>

definition handle_puzzle_impact :: "data_obj \<Rightarrow> int" where
  "handle_puzzle_impact puzzle_data =
     (let impact = dict_get (d_impact puzzle_data) 0
      in if impact > 0 then impact
         else if impact < 0 then impact
         else 0)"

text \<open>The \<open>state\<close> branch of \<open>handle_connection\<close>, run by one task with no other task
  scheduled at its suspension points. \<open>t_signal\<close>, \<open>t_perf\<close> and \<open>t_opt\<close> are the three
  readings of \<open>time.time()\<close>. A connection id without a ledger entry raises \<open>KeyError\<close>.
  The result is the shared state, the effects in order, and the exception raised if any.\<close>

definition handle_state ::
  "int \<Rightarrow> data_obj \<Rightarrow> real \<Rightarrow> real \<Rightarrow> real \<Rightarrow> shared_state
     \<Rightarrow> shared_state \<times> effect list \<times> py_exception option" where
  "handle_state conn_id state_data t_signal t_perf t_opt s =
     (let forecast = dict_get (d_price_forecast state_data) 0;
          momentum = dict_get (d_momentum state_data) 0;
          position = dict_get (d_position state_data) 0;
          position_limit = dict_get (d_position_limit state_data) 3;
          current_price = dict_get (d_price state_data) 0;
          current_pnl = dict_get (d_pnl state_data) 0;
          ps = strategy_params s
      in case determine_trade_volume forecast momentum position position_limit conn_id ps
                t_signal s of
        (trade_volume, s1) \<Rightarrow>
          (case connection_performance s1 conn_id of
             None \<Rightarrow> (s1, [], Some KeyError)
           | Some cp \<Rightarrow>
               (let pnl_change = current_pnl - last_pnl cp;
                    cp1 = cp\<lparr>last_pnl := current_pnl\<rparr>;
                    s2 = s1\<lparr>connection_performance :=
                              (connection_performance s1)(conn_id \<mapsto> cp1)\<rparr>;
                    s3 = (if trades_made cp1 > 0 then
                            s2\<lparr>performance_history :=
                                 deque_append (performance_history s2)
                                   \<lparr> perf_conn_id = conn_id, perf_timestamp = t_perf,
                                     perf_momentum = momentum, perf_forecast = forecast,
                                     perf_position = position,
                                     perf_trade_volume = trade_volume,
                                     perf_pnl_change = pnl_change,
                                     perf_price = current_price,
                                     perf_total_pnl = current_pnl \<rparr>\<rparr>
                          else s2);
                    sent = (if trade_volume \<noteq> 0 then [Send (Trade_message trade_volume)]
                            else []);
                    s4 = (if trade_volume \<noteq> 0 then
                            s3\<lparr>connection_performance :=
                                 (connection_performance s3)
                                   (conn_id \<mapsto> cp1\<lparr>trades_made := trades_made cp1 + 1\<rparr>)\<rparr>
                          else s3)
                in case optimize_strategy t_opt s4 of
                     (exc, s5) \<Rightarrow> (s5, sent, exc))))"

text \<open>The \<open>puzzle\<close> branch: the effects in order.\<close>

definition handle_puzzle :: "data_obj \<Rightarrow> effect list" where
  "handle_puzzle puzzle_data =
     (let puzzle_impact = handle_puzzle_impact puzzle_data
      in (if puzzle_impact \<noteq> 0
          then [Send (Trade_message (if puzzle_impact > 0 then 3 else - 3))]
          else [])
         @ [Send Skip_message])"

text \<open>The \<open>if\<close>/\<open>elif\<close> chain on a decoded message. Every branch asks for the key
  \<open>"data"\<close>; a message that matches no branch is dropped.\<close>

definition handle_message ::
  "int \<Rightarrow> envelope \<Rightarrow> real \<Rightarrow> real \<Rightarrow> real \<Rightarrow> shared_state
     \<Rightarrow> shared_state \<times> effect list \<times> py_exception option" where
  "handle_message conn_id response_data t_signal t_perf t_opt s =
     (case data response_data of
        None \<Rightarrow> (s, [], None)
      | Some d \<Rightarrow>
          if event response_data = Some ''connection'' then
            (if d_player_id d = Some PLAYER_ID then (s, [Send Start_message], None)
             else (s, [], None))
          else if event response_data = Some ''state'' then
            handle_state conn_id d t_signal t_perf t_opt s
          else if event response_data = Some ''finish'' then
            (let final_pnl = dict_get (d_pnl d) 0
             in (s, [Print_game_over final_pnl], Some CancelledError))
          else if event response_data = Some ''puzzle'' then
            (s, handle_puzzle d, None)
          else (s, [], None))"

text \<open>One pass of the \<open>while True\<close> loop. \<open>recv\<close> times out, or delivers a text that
  \<open>json.loads\<close> rejects, or a decoded message. \<open>asyncio.TimeoutError\<close> and
  \<open>json.JSONDecodeError\<close> are answered with \<open>continue\<close>; every exception of
  \<^typ>\<open>py_exception\<close> is neither of the two and leaves the loop.\<close>

datatype inbound = Recv_timeout | Undecodable | Decoded envelope

datatype loop_ctl = Continue | Leave py_exception

definition receive_iteration ::
  "int \<Rightarrow> inbound \<Rightarrow> real \<Rightarrow> real \<Rightarrow> real \<Rightarrow> shared_state
     \<Rightarrow> shared_state \<times> effect list \<times> loop_ctl" where
  "receive_iteration conn_id inb t_signal t_perf t_opt s =
     (case inb of
        Recv_timeout \<Rightarrow> (s, [], Continue)
      | Undecodable \<Rightarrow> (s, [], Continue)
      | Decoded response_data \<Rightarrow>
          (case handle_message conn_id response_data t_signal t_perf t_opt s of
             (s', effects, None) \<Rightarrow> (s', effects, Continue)
           | (s', effects, Some e) \<Rightarrow> (s', effects, Leave e)))"

text \<open>\<open>isinstance(e, Exception)\<close>. \<open>StatisticsError\<close>, \<open>ZeroDivisionError\<close> and
  \<open>KeyError\<close> derive from \<open>Exception\<close>; \<open>asyncio.CancelledError\<close> derives from
  \<open>BaseException\<close> (Python 3.8 and later).\<close>

definition is_Exception :: "py_exception \<Rightarrow> bool" where
  "is_Exception e = (e \<noteq> CancelledError)"

text \<open>How \<open>handle_connection\<close> ends once the loop is left with an exception (lines 300
  to 314). The inner \<open>except Exception\<close> re-raises, so the exception reaches the outer
  \<open>except Exception\<close> unchanged. An exception that derives from \<open>Exception\<close> is caught
  there; the code after the \<open>try\<close> block then sleeps and creates the task
  \<open>handle_connection(conn_id)\<close> again. Any other exception passes both handlers: it
  ends the task, and the code after the \<open>try\<close> block is not run.\<close>

datatype task_exit = Reconnect int | Task_raised py_exception

definition handle_connection_exit :: "int \<Rightarrow> py_exception \<Rightarrow> task_exit" where
  "handle_connection_exit conn_id e =
     (if is_Exception e then Reconnect conn_id else Task_raised e)"

text \<open>One pass of the loop together with the end of the task when the pass leaves the
  loop; \<open>None\<close> when the loop goes on.\<close>

definition handle_connection_step ::
  "int \<Rightarrow> inbound \<Rightarrow> real \<Rightarrow> real \<Rightarrow> real \<Rightarrow> shared_state
     \<Rightarrow> shared_state \<times> effect list \<times> task_exit option" where
  "handle_connection_step conn_id inb t_signal t_perf t_opt s =
     (case receive_iteration conn_id inb t_signal t_perf t_opt s of
        (s', effects, Continue) \<Rightarrow> (s', effects, None)
      | (s', effects, Leave e) \<Rightarrow> (s', effects, Some (handle_connection_exit conn_id e)))"

text \<open>The start of \<open>handle_connection\<close>: a connection id seen for the first time gets a
  fresh ledger entry; an id that reconnects keeps the entry it has.\<close>

definition init_connection :: "int \<Rightarrow> shared_state \<Rightarrow> shared_state" where
  "init_connection conn_id s =
     (if conn_id \<notin> dom (connection_performance s) then
        s\<lparr>connection_performance :=
            (connection_performance s)
              (conn_id \<mapsto> \<lparr> last_pnl = 0, trades_made = 0, successful_trades = 0 \<rparr>)\<rparr>
      else s)"

section \<open>Runs of the process\<close>

text \<open>The shared states that the process can be in: the state that \<open>SharedState()\<close>
  builds, any write of session code outside \<open>optimize_strategy\<close> (which assigns
  histories and ledger entries but never \<open>strategy_params\<close>), and a call of
  \<open>optimize_strategy\<close> at any clock reading.\<close>

inductive reachable :: "shared_state \<Rightarrow> bool" where
  initial: "reachable (SharedState_init now)"
| session: "reachable s \<Longrightarrow> strategy_params s' = strategy_params s \<Longrightarrow> reachable s'"
| optimizer: "reachable s \<Longrightarrow> optimize_strategy now s = (exc, s') \<Longrightarrow> reachable s'"

section \<open>Sample inputs\<close>

text \<open>Performance records and histories on which the theorems are instantiated.\<close>

definition sample_perf :: "int \<Rightarrow> real \<Rightarrow> perf_data" where
  "sample_perf volume change =
     \<lparr> perf_conn_id = 0, perf_timestamp = 1, perf_momentum = 12, perf_forecast = 0.8,
       perf_position = 0, perf_trade_volume = volume, perf_pnl_change = change,
       perf_price = 50, perf_total_pnl = change \<rparr>"

definition losing_history :: "perf_data list" where
  "losing_history = map (sample_perf 3) [- 10, - 6, - 8, - 12, - 4]"

definition idle_winning_history :: "perf_data list" where
  "idle_winning_history = map (sample_perf 0) [10, 6, 8, 12, 4] @ [sample_perf 2 (- 1)]"

definition short_winning_history :: "perf_data list" where
  "short_winning_history = map (sample_perf 3) [100, 100, 100, 100]"

text \<open>Inbound messages on which the theorems are instantiated.\<close>

definition sample_state_data :: "real \<Rightarrow> real \<Rightarrow> int \<Rightarrow> real \<Rightarrow> data_obj" where
  "sample_state_data forecast momentum position current_pnl =
     \<lparr> d_player_id = None, d_price_forecast = Some forecast, d_momentum = Some momentum,
       d_position = Some position, d_position_limit = Some 3, d_price = Some 50,
       d_pnl = Some current_pnl, d_impact = None \<rparr>"

definition puzzle_envelope :: "int option \<Rightarrow> envelope" where
  "puzzle_envelope impact =
     \<lparr> event = Some ''puzzle'',
       data = Some \<lparr> d_player_id = None, d_price_forecast = None, d_momentum = None,
                     d_position = None, d_position_limit = None, d_price = None,
                     d_pnl = None, d_impact = impact \<rparr> \<rparr>"

definition game_over_envelope :: "string \<Rightarrow> real \<Rightarrow> envelope" where
  "game_over_envelope name final =
     \<lparr> event = Some name,
       data = Some \<lparr> d_player_id = None, d_price_forecast = None, d_momentum = None,
                     d_position = None, d_position_limit = None, d_price = None,
                     d_pnl = Some final, d_impact = None \<rparr> \<rparr>"

text \<open>A shared state in which connection 0 has made one trade.\<close>

definition traded_once :: shared_state where
  "traded_once =
     (SharedState_init 0)
       \<lparr>connection_performance :=
          [0 \<mapsto> \<lparr> last_pnl = 5, trades_made = 1, successful_trades = 0 \<rparr>]\<rparr>"

section \<open>Properties of the signal processor\<close>

text \<open>
  Claim C1. For every position limit \<open>L > 0\<close>, every position \<open>p\<close> with
  \<open>-L \<le> p \<le> L\<close>, every forecast, momentum and parameter snapshot, the volume \<open>v\<close>
  returned by \<open>determine_trade_volume\<close> satisfies \<open>-L \<le> p + v \<le> L\<close>.
\<close>

theorem determine_trade_volume_within_limit:
  assumes "0 < L" and "- L \<le> p" and "p \<le> L"
  shows "- L \<le> p + fst (determine_trade_volume forecast momentum p L conn_id ps now s)
       \<and> p + fst (determine_trade_volume forecast momentum p L conn_id ps now s) \<le> L"
  using assms unfolding determine_trade_volume_def Let_def fst_conv
  by (simp only: min_def max_def split: if_splits) linarith

text \<open>The scenario of the specification: forecast 0.8, momentum 12, position 0, limit 3
  and the default parameters give a raw volume above 2.5, so the volume is 3.\<close>

lemma tanh_lower_bound:
  fixes x :: real
  assumes "0 \<le> x"
  shows "x / (1 + x) \<le> tanh x"
proof -
  define e where "e = exp (- 2 * x)"
  have epos: "0 < e" by (simp add: e_def)
  have "1 + 2 * x \<le> exp (2 * x)" by (rule exp_ge_add_one_self)
  moreover have "e * exp (2 * x) = 1" by (simp add: e_def exp_minus field_simps)
  ultimately have "e * (1 + 2 * x) \<le> 1"
    using epos by (metis mult_left_mono less_imp_le)
  then have "x * (1 + e) \<le> (1 - e) * (1 + x)" by (simp add: algebra_simps)
  then have "x / (1 + x) \<le> (1 - e) / (1 + e)"
    using assms epos by (simp add: field_simps)
  then show ?thesis by (simp add: tanh_real_altdef e_def)
qed

lemma py_round_lower:
  assumes "of_int k - 1/2 < x"
  shows "k \<le> py_round x"
proof (cases "x - of_int \<lfloor>x\<rfloor> < 1/2")
  case True
  then have "of_int k - 1 < (of_int \<lfloor>x\<rfloor> :: real)" using assms by linarith
  then have "k - 1 < \<lfloor>x\<rfloor>" by (metis of_int_less_iff of_int_diff of_int_1)
  with True show ?thesis by (simp add: py_round_def Let_def)
next
  case False
  have "of_int k - 1/2 < (of_int \<lfloor>x\<rfloor> :: real) + 1" using assms by linarith
  then have "of_int k < (of_int (\<lfloor>x\<rfloor> + 2) :: real)" by simp
  then have "k < \<lfloor>x\<rfloor> + 2" by (metis of_int_less_iff)
  then have k: "k \<le> \<lfloor>x\<rfloor> + 1" by simp
  show ?thesis
  proof (cases "x - of_int \<lfloor>x\<rfloor> > 1/2")
    case True
    with False k show ?thesis by (simp add: py_round_def Let_def)
  next
    case half: False
    with False have eq: "x = of_int \<lfloor>x\<rfloor> + 1/2" by linarith
    with assms have "of_int k < (of_int \<lfloor>x\<rfloor> :: real) + 1" by linarith
    then have "of_int k < (of_int (\<lfloor>x\<rfloor> + 1) :: real)" by simp
    then have "k < \<lfloor>x\<rfloor> + 1" by (metis of_int_less_iff)
    then have "k \<le> \<lfloor>x\<rfloor>" by simp
    with False half show ?thesis by (simp add: py_round_def Let_def)
  qed
qed

lemma scenario_raw_volume:
  "5 / 2 < (tanh (12 / 10) * 0.6 + tanh (0.8 * 2) * 0.4) * 3 * (1.5 :: real)"
proof -
  have a: "(6 / 11 :: real) \<le> tanh (12 / 10)"
    using tanh_lower_bound [of "12 / 10"] by simp
  have b: "(8 / 13 :: real) \<le> tanh (0.8 * 2)"
    using tanh_lower_bound [of "0.8 * 2"] by simp
  from a b show ?thesis by simp
qed

lemma scenario_trade_volume:
  "fst (determine_trade_volume 0.8 12 0 3 c
     \<lparr> momentum_weight = 0.6, forecast_weight = 0.4, strong_momentum_threshold = 10,
       medium_momentum_threshold = 5, aggressive_factor = 1.5 \<rparr> t s) = 3"
proof -
  let ?raw = "(tanh (12 / 10) * 0.6 + tanh (0.8 * 2) * 0.4) * 3 * (1.5 :: real)"
  have raw: "5 / 2 < ?raw" by (rule scenario_raw_volume)
  then have pos: "0 < ?raw" by linarith
  have "3 \<le> py_round ?raw" using raw by (intro py_round_lower) simp
  then have "min (max 0 (py_round ?raw)) 3 = 3" by simp
  then show ?thesis
    using pos by (simp add: determine_trade_volume_def Let_def)
qed

theorem determine_trade_volume_within_limit_witness:
  "fst (determine_trade_volume 0.8 12 0 3 0 (strategy_params (SharedState_init 0)) 1
          (SharedState_init 0)) = 3
   \<and> - 3 \<le> 0 + fst (determine_trade_volume 0.8 12 0 3 0
          (strategy_params (SharedState_init 0)) 1 (SharedState_init 0))
   \<and> 0 + fst (determine_trade_volume 0.8 12 0 3 0
          (strategy_params (SharedState_init 0)) 1 (SharedState_init 0)) \<le> 3"
proof -
  have sp: "strategy_params (SharedState_init 0) =
    \<lparr> momentum_weight = 0.6, forecast_weight = 0.4, strong_momentum_threshold = 10,
       medium_momentum_threshold = 5, aggressive_factor = 1.5 \<rparr>"
    by (simp add: SharedState_init_def)
  have h1: "(0 :: int) < 3" and h2: "- (3 :: int) \<le> 0" and h3: "(0 :: int) \<le> 3" by simp_all
  show ?thesis
    using determine_trade_volume_within_limit [OF h1 h2 h3, of "0.8" 12 0
        "strategy_params (SharedState_init 0)" 1 "SharedState_init 0"]
      scenario_trade_volume [of 0 1 "SharedState_init 0"]
    by (simp only: sp)
qed

section \<open>Auxiliary facts about the optimizer\<close>

lemma collect_correlations_none:
  "\<forall>p \<in> set xs. \<not> (perf_pnl_change p > 0 \<and> perf_trade_volume p \<noteq> 0)
     \<Longrightarrow> collect_correlations xs acc = acc"
  by (induction xs acc rule: collect_correlations.induct) auto

lemma collect_correlations_pos:
  "\<forall>x \<in> set mc. 0 < x \<Longrightarrow> \<forall>x \<in> set fc. 0 < x
     \<Longrightarrow> collect_correlations xs (mc, fc) = (mc', fc')
     \<Longrightarrow> (\<forall>x \<in> set mc'. 0 < x) \<and> (\<forall>x \<in> set fc'. 0 < x)"
proof (induction xs arbitrary: mc fc)
  case Nil
  then show ?case by simp
next
  case (Cons p rest)
  show ?case
  proof (cases "perf_pnl_change p > 0 \<and> perf_trade_volume p \<noteq> 0")
    case False
    with Cons.prems(3) have "collect_correlations rest (mc, fc) = (mc', fc')" by auto
    with Cons.IH Cons.prems(1,2) show ?thesis by blast
  next
    case q: True
    show ?thesis
    proof (cases "\<bar>perf_momentum p\<bar> > \<bar>perf_forecast p\<bar>")
      case True
      with q Cons.prems(3)
      have c: "collect_correlations rest (mc @ [1], fc @ [0.5]) = (mc', fc')" by simp
      have "\<forall>x \<in> set (mc @ [1]). 0 < x" "\<forall>x \<in> set (fc @ [0.5]). 0 < x"
        using Cons.prems(1,2) by auto
      with Cons.IH c show ?thesis by blast
    next
      case False
      with q Cons.prems(3)
      have c: "collect_correlations rest (mc @ [0.5], fc @ [1]) = (mc', fc')" by simp
      have "\<forall>x \<in> set (mc @ [0.5]). 0 < x" "\<forall>x \<in> set (fc @ [1]). 0 < x"
        using Cons.prems(1,2) by auto
      with Cons.IH c show ?thesis by blast
    qed
  qed
qed

lemma sum_list_pos_real:
  fixes xs :: "real list"
  shows "xs \<noteq> [] \<Longrightarrow> \<forall>x \<in> set xs. 0 < x \<Longrightarrow> 0 < sum_list xs"
  by (induction xs) (auto intro: add_pos_nonneg sum_list_nonneg less_imp_le)

lemma mean_pos:
  "xs \<noteq> [] \<Longrightarrow> \<forall>x \<in> set xs. 0 < x \<Longrightarrow> \<exists>m. mean xs = Inr m \<and> 0 < m"
  by (simp add: mean_def sum_list_pos_real)

lemma mean_nonempty: "xs \<noteq> [] \<Longrightarrow> \<exists>m. mean xs = Inr m"
  by (simp add: mean_def)

lemma optimize_strategy_result:
  "\<exists>t' ps'. optimize_strategy t s = (None, s\<lparr>last_optimization := t', strategy_params := ps'\<rparr>)
      \<and> (1 \<le> aggressive_factor (strategy_params s) \<and> aggressive_factor (strategy_params s) \<le> 2
           \<longrightarrow> 1 \<le> aggressive_factor ps' \<and> aggressive_factor ps' \<le> 2)"
proof (cases "t - last_optimization s < optimization_interval s \<or> length (performance_history s) < 5")
  case True
  then have "optimize_strategy t s = (None, s)" by (auto simp: optimize_strategy_def)
  then have "optimize_strategy t s
      = (None, s\<lparr>last_optimization := last_optimization s, strategy_params := strategy_params s\<rparr>)"
    by simp
  then show ?thesis by blast
next
  case guards: False
  then have ne: "performance_history s \<noteq> []" by auto
  then obtain avg where avg: "mean (map perf_pnl_change (performance_history s)) = Inr avg"
    using mean_nonempty [of "map perf_pnl_change (performance_history s)"] by auto
  obtain mc fc where cc: "collect_correlations (performance_history s) ([], []) = (mc, fc)"
    by (cases "collect_correlations (performance_history s) ([], [])") auto
  consider (reinforce) "avg > 5" "mc \<noteq> []" "fc \<noteq> []"
    | (nocredit) "avg > 5" "\<not> (mc \<noteq> [] \<and> fc \<noteq> [])"
    | (reset) "\<not> avg > 5" "avg < - 5"
    | (neither) "\<not> avg > 5" "\<not> avg < - 5" by blast
  then show ?thesis
  proof cases
    case reinforce
    from collect_correlations_pos [OF _ _ cc]
    have pos: "\<forall>x \<in> set mc. 0 < x" "\<forall>x \<in> set fc. 0 < x" by auto
    from mean_pos [OF reinforce(2) pos(1)] obtain a where a: "mean mc = Inr a" "0 < a" by blast
    from mean_pos [OF reinforce(3) pos(2)] obtain b where b: "mean fc = Inr b" "0 < b" by blast
    from a b have tot: "a + b \<noteq> 0" by linarith
    have "optimize_strategy t s =
        (None, s\<lparr>last_optimization := t,
                 strategy_params := (strategy_params s)
                   \<lparr>momentum_weight := a / (a + b), forecast_weight := b / (a + b),
                    aggressive_factor := min 2.0 (aggressive_factor (strategy_params s) + 0.1)\<rparr>\<rparr>)"
      using guards ne avg cc reinforce a b tot
      by (simp add: optimize_strategy_def Let_def py_div_def)
    then show ?thesis
      by (intro exI conjI, assumption) (simp add: min_def)
  next
    case nocredit
    have "optimize_strategy t s = (None, s\<lparr>last_optimization := t\<rparr>)"
      using guards ne avg cc nocredit by (auto simp add: optimize_strategy_def Let_def)
    then have "optimize_strategy t s
        = (None, s\<lparr>last_optimization := t, strategy_params := strategy_params s\<rparr>)" by simp
    then show ?thesis
      by (intro exI conjI, assumption) simp
  next
    case reset
    have "optimize_strategy t s =
           (None, s\<lparr>last_optimization := t,
                    strategy_params := (strategy_params s)
                      \<lparr>momentum_weight := 0.5, forecast_weight := 0.5,
                       aggressive_factor := max 1.0 (aggressive_factor (strategy_params s) - 0.2)\<rparr>\<rparr>)"
      using guards ne avg reset by (simp add: optimize_strategy_def Let_def)
    then show ?thesis
      by (intro exI conjI, assumption) (simp add: max_def)
  next
    case neither
    have "optimize_strategy t s = (None, s\<lparr>last_optimization := t\<rparr>)"
      using guards ne avg neither by (simp add: optimize_strategy_def Let_def)
    then have "optimize_strategy t s
        = (None, s\<lparr>last_optimization := t, strategy_params := strategy_params s\<rparr>)" by simp
    then show ?thesis
      by (intro exI conjI, assumption) simp
  qed
qed

lemma optimize_strategy_frame:
  "optimize_strategy t s = (exc, s') \<Longrightarrow>
     exc = None \<and> performance_history s' = performance_history s
   \<and> trade_history s' = trade_history s
   \<and> connection_performance s' = connection_performance s
   \<and> optimization_interval s' = optimization_interval s"
  using optimize_strategy_result [of t s] by auto

section \<open>Auxiliary facts about the state handler\<close>

lemma determine_trade_volume_frame:
  "determine_trade_volume f m p L c ps t s = (v, s1) \<Longrightarrow>
     connection_performance s1 = connection_performance s
   \<and> performance_history s1 = performance_history s
   \<and> strategy_params s1 = strategy_params s"
  by (auto simp: determine_trade_volume_def Let_def)

lemma handle_state_with_ledger:
  assumes ledger: "connection_performance s conn_id = Some cp"
    and vol: "v = fst (determine_trade_volume
                  (dict_get (d_price_forecast d) 0) (dict_get (d_momentum d) 0)
                  (dict_get (d_position d) 0) (dict_get (d_position_limit d) 3)
                  conn_id (strategy_params s) t_signal s)"
  shows "\<exists>s4. handle_state conn_id d t_signal t_perf t_opt s
            = (snd (optimize_strategy t_opt s4),
               (if v \<noteq> 0 then [Send (Trade_message v)] else []),
               fst (optimize_strategy t_opt s4))
          \<and> strategy_params s4 = strategy_params s
          \<and> performance_history s4 =
              (if trades_made cp > 0 then
                 deque_append (performance_history s)
                   \<lparr> perf_conn_id = conn_id, perf_timestamp = t_perf,
                     perf_momentum = dict_get (d_momentum d) 0,
                     perf_forecast = dict_get (d_price_forecast d) 0,
                     perf_position = dict_get (d_position d) 0,
                     perf_trade_volume = v,
                     perf_pnl_change = dict_get (d_pnl d) 0 - last_pnl cp,
                     perf_price = dict_get (d_price d) 0,
                     perf_total_pnl = dict_get (d_pnl d) 0 \<rparr>
               else performance_history s)
          \<and> connection_performance s4 conn_id =
              Some (cp\<lparr>last_pnl := dict_get (d_pnl d) 0,
                       trades_made := (if v \<noteq> 0 then trades_made cp + 1 else trades_made cp)\<rparr>)"
proof -
  obtain s1 where dtv: "determine_trade_volume
                  (dict_get (d_price_forecast d) 0) (dict_get (d_momentum d) 0)
                  (dict_get (d_position d) 0) (dict_get (d_position_limit d) 3)
                  conn_id (strategy_params s) t_signal s = (v, s1)"
    using vol by (metis prod.collapse)
  from determine_trade_volume_frame [OF dtv]
  have f1: "connection_performance s1 = connection_performance s"
    "performance_history s1 = performance_history s"
    "strategy_params s1 = strategy_params s" by auto
  define cp1 where "cp1 = cp\<lparr>last_pnl := dict_get (d_pnl d) 0\<rparr>"
  define s2 where "s2 = s1\<lparr>connection_performance := (connection_performance s1)(conn_id \<mapsto> cp1)\<rparr>"
  define rec where "rec =
                \<lparr> perf_conn_id = conn_id, perf_timestamp = t_perf,
                  perf_momentum = dict_get (d_momentum d) 0,
                  perf_forecast = dict_get (d_price_forecast d) 0,
                  perf_position = dict_get (d_position d) 0,
                  perf_trade_volume = v,
                  perf_pnl_change = dict_get (d_pnl d) 0 - last_pnl cp,
                  perf_price = dict_get (d_price d) 0,
                  perf_total_pnl = dict_get (d_pnl d) 0 \<rparr>"
  define s3 where "s3 = (if trades_made cp1 > 0
      then s2\<lparr>performance_history := deque_append (performance_history s2) rec\<rparr> else s2)"
  define s4 where "s4 = (if v \<noteq> 0
      then s3\<lparr>connection_performance :=
             (connection_performance s3)(conn_id \<mapsto> cp1\<lparr>trades_made := trades_made cp1 + 1\<rparr>)\<rparr>
      else s3)"
  have hs: "handle_state conn_id d t_signal t_perf t_opt s
      = (snd (optimize_strategy t_opt s4),
         (if v \<noteq> 0 then [Send (Trade_message v)] else []),
         fst (optimize_strategy t_opt s4))"
    using dtv ledger f1
    by (simp add: handle_state_def Let_def s4_def s3_def s2_def cp1_def rec_def
        split: prod.splits)
  have sp4: "strategy_params s4 = strategy_params s"
    by (simp add: s4_def s3_def s2_def f1)
  have p4: "performance_history s4 =
      (if trades_made cp > 0 then deque_append (performance_history s) rec
       else performance_history s)"
    by (simp add: s4_def s3_def s2_def cp1_def f1)
  have c4: "connection_performance s4 conn_id =
      Some (cp\<lparr>last_pnl := dict_get (d_pnl d) 0,
               trades_made := (if v \<noteq> 0 then trades_made cp + 1 else trades_made cp)\<rparr>)"
    by (simp add: s4_def s3_def s2_def cp1_def)
  from hs sp4 p4 c4 show ?thesis unfolding rec_def by blast
qed

lemma handle_state_without_ledger:
  assumes "connection_performance s conn_id = None"
  shows "\<exists>s1. handle_state conn_id d t_signal t_perf t_opt s = (s1, [], Some KeyError)
          \<and> strategy_params s1 = strategy_params s"
proof -
  obtain v s1 where dtv: "determine_trade_volume
                  (dict_get (d_price_forecast d) 0) (dict_get (d_momentum d) 0)
                  (dict_get (d_position d) 0) (dict_get (d_position_limit d) 3)
                  conn_id (strategy_params s) t_signal s = (v, s1)"
    by (metis prod.collapse)
  from determine_trade_volume_frame [OF dtv] assms
  have "connection_performance s1 conn_id = None" "strategy_params s1 = strategy_params s"
    by auto
  with dtv show ?thesis by (simp add: handle_state_def Let_def)
qed

section \<open>Properties of the strategy optimizer\<close>

text \<open>
  Claim C3. Whenever the performance history holds fewer than 5 records, whatever their
  \<open>pnl_change\<close> values and whatever the elapsed time, a call of \<open>optimize_strategy\<close>
  changes nothing: the five strategy parameters, both history buffers and the time of
  the last run stay as they are. The same holds whenever the time elapsed since the last
  run is below the optimization interval (30 seconds in every state the program builds).
\<close>

theorem optimize_strategy_noop:
  assumes "length (performance_history s) < 5
         \<or> current_time - last_optimization s < optimization_interval s"
  shows "optimize_strategy current_time s = (None, s)"
  using assms by (auto simp: optimize_strategy_def)

theorem optimize_strategy_noop_witness:
  "optimize_strategy 1000
     ((SharedState_init 0)\<lparr>performance_history := short_winning_history\<rparr>)
   = (None, (SharedState_init 0)\<lparr>performance_history := short_winning_history\<rparr>)
   \<and> optimize_strategy 29 ((SharedState_init 0)\<lparr>performance_history := losing_history\<rparr>)
   = (None, (SharedState_init 0)\<lparr>performance_history := losing_history\<rparr>)"
proof -
  let ?s4 = "(SharedState_init 0)\<lparr>performance_history := short_winning_history\<rparr>"
  let ?s5 = "(SharedState_init 0)\<lparr>performance_history := losing_history\<rparr>"
  have few: "length (performance_history ?s4) < 5
      \<or> 1000 - last_optimization ?s4 < optimization_interval ?s4"
    by (simp add: short_winning_history_def)
  have early: "length (performance_history ?s5) < 5
      \<or> 29 - last_optimization ?s5 < optimization_interval ?s5"
    by (simp add: SharedState_init_def)
  show ?thesis
    using optimize_strategy_noop [OF few] optimize_strategy_noop [OF early] by simp
qed

text \<open>
  Claim C4. Starting from the initial value 1.5, after any finite sequence of optimizer
  runs, each taking the reinforcement branch, the reset branch or neither, and with any
  session activity in between, \<open>aggressive_factor\<close> lies within \<open>[1.0, 2.0]\<close>.
\<close>

theorem aggressive_factor_bounds:
  assumes "reachable s"
  shows "1 \<le> aggressive_factor (strategy_params s) \<and> aggressive_factor (strategy_params s) \<le> 2"
  using assms
proof (induction rule: reachable.induct)
  case (initial now)
  show ?case by (simp add: SharedState_init_def)
next
  case (session s s')
  then show ?case by simp
next
  case (optimizer s now exc s')
  from optimize_strategy_result [of now s] optimizer.hyps(2) optimizer.IH
  show ?case by auto
qed

theorem aggressive_factor_bounds_witness:
  "reachable (snd (optimize_strategy 31
      ((SharedState_init 0)\<lparr>performance_history := losing_history\<rparr>)))
   \<and> 1 \<le> aggressive_factor (strategy_params (snd (optimize_strategy 31
      ((SharedState_init 0)\<lparr>performance_history := losing_history\<rparr>))))
   \<and> aggressive_factor (strategy_params (snd (optimize_strategy 31
      ((SharedState_init 0)\<lparr>performance_history := losing_history\<rparr>)))) \<le> 2"
proof -
  let ?s1 = "(SharedState_init 0)\<lparr>performance_history := losing_history\<rparr>"
  have "reachable ?s1"
    by (rule reachable.session [OF reachable.initial [of 0]]) simp
  then have r: "reachable (snd (optimize_strategy 31 ?s1))"
    by (rule reachable.optimizer [where now = 31 and exc = "fst (optimize_strategy 31 ?s1)"]) simp
  show ?thesis
    using r aggressive_factor_bounds [OF r] by simp
qed

text \<open>The handlers of the session worker stay within the reachable states.\<close>

lemma init_connection_reachable:
  "reachable s \<Longrightarrow> reachable (init_connection conn_id s)"
  by (rule reachable.session [of s]) (simp_all add: init_connection_def)

lemma handle_state_reachable:
  assumes "reachable s"
  shows "reachable (fst (handle_state conn_id d t_signal t_perf t_opt s))"
proof (cases "connection_performance s conn_id")
  case None
  from handle_state_without_ledger [OF None, of d t_signal t_perf t_opt] assms
  show ?thesis by (auto intro: reachable.session)
next
  case (Some cp)
  from handle_state_with_ledger [OF Some refl, of d t_signal t_perf t_opt] obtain s4 where
    hs: "fst (handle_state conn_id d t_signal t_perf t_opt s) = snd (optimize_strategy t_opt s4)"
    and sp4: "strategy_params s4 = strategy_params s"
    by force
  from assms sp4 have "reachable s4" by (rule reachable.session)
  then have "reachable (snd (optimize_strategy t_opt s4))"
    by (rule reachable.optimizer [where now = t_opt and exc = "fst (optimize_strategy t_opt s4)"])
      simp
  with hs show ?thesis by simp
qed

lemma handle_message_reachable:
  assumes "reachable s"
  shows "reachable (fst (handle_message conn_id r t_signal t_perf t_opt s))"
  using assms handle_state_reachable [OF assms]
  by (simp add: handle_message_def Let_def split: option.splits)

text \<open>
  Claim C5. When both guards pass and the mean of \<open>pnl_change\<close> over the current
  performance records is strictly below \<open>-5\<close>, the run sets \<open>momentum_weight\<close> and
  \<open>forecast_weight\<close> to exactly 0.5 each and replaces \<open>aggressive_factor\<close> by
  \<open>max(1.0, aggressive_factor - 0.2)\<close>.
\<close>

theorem optimize_strategy_reset:
  assumes "\<not> current_time - last_optimization s < optimization_interval s"
    and "5 \<le> length (performance_history s)"
    and "mean (map perf_pnl_change (performance_history s)) = Inr avg_profit"
    and "avg_profit < - 5"
  shows "optimize_strategy current_time s =
           (None, s\<lparr>last_optimization := current_time,
                    strategy_params := (strategy_params s)
                      \<lparr>momentum_weight := 0.5, forecast_weight := 0.5,
                       aggressive_factor := max 1.0 (aggressive_factor (strategy_params s) - 0.2)\<rparr>\<rparr>)"
proof -
  from assms(2) have ne: "performance_history s \<noteq> []" by auto
  show ?thesis
    using assms ne by (simp add: optimize_strategy_def Let_def)
qed

theorem optimize_strategy_reset_witness:
  "optimize_strategy 31 ((SharedState_init 0)\<lparr>performance_history := losing_history\<rparr>)
   = (None,
      (SharedState_init 0)
        \<lparr>performance_history := losing_history,
         last_optimization := 31,
         strategy_params :=
           \<lparr> momentum_weight = 0.5, forecast_weight = 0.5,
             strong_momentum_threshold = 10, medium_momentum_threshold = 5,
             aggressive_factor = 1.3 \<rparr>\<rparr>)"
proof -
  let ?s = "(SharedState_init 0)\<lparr>performance_history := losing_history\<rparr>"
  have g1: "\<not> 31 - last_optimization ?s < optimization_interval ?s"
    by (simp add: SharedState_init_def)
  have g2: "5 \<le> length (performance_history ?s)"
    by (simp add: losing_history_def)
  have m: "mean (map perf_pnl_change (performance_history ?s)) = Inr (- 8)"
    by (simp add: mean_def losing_history_def sample_perf_def)
  have lt: "(- 8 :: real) < - 5" by simp
  show ?thesis
    using optimize_strategy_reset [OF g1 g2 m lt]
    by (simp add: SharedState_init_def)
qed

text \<open>
  Claim C6. When a run takes the reinforcement branch (mean of \<open>pnl_change\<close> above 5)
  and no performance record has both a nonzero \<open>trade_volume\<close> and a strictly positive
  \<open>pnl_change\<close>, the normalisation is skipped: no exception is raised and
  \<open>momentum_weight\<close> and \<open>forecast_weight\<close> keep their values; only the time of the
  last run is written.
\<close>

theorem optimize_strategy_no_credit:
  assumes "\<not> current_time - last_optimization s < optimization_interval s"
    and "5 \<le> length (performance_history s)"
    and "mean (map perf_pnl_change (performance_history s)) = Inr avg_profit"
    and "avg_profit > 5"
    and "\<forall>p \<in> set (performance_history s).
           \<not> (perf_trade_volume p \<noteq> 0 \<and> perf_pnl_change p > 0)"
  shows "optimize_strategy current_time s = (None, s\<lparr>last_optimization := current_time\<rparr>)"
proof -
  from assms(2) have ne: "performance_history s \<noteq> []" by auto
  from assms(5) have "collect_correlations (performance_history s) ([], []) = ([], [])"
    by (intro collect_correlations_none) auto
  then show ?thesis
    using assms(1-4) ne by (simp add: optimize_strategy_def Let_def)
qed

theorem optimize_strategy_no_credit_witness:
  "optimize_strategy 31 ((SharedState_init 0)\<lparr>performance_history := idle_winning_history\<rparr>)
   = (None,
      (SharedState_init 0)
        \<lparr>performance_history := idle_winning_history, last_optimization := 31\<rparr>)
   \<and> strategy_params (snd (optimize_strategy 31
        ((SharedState_init 0)\<lparr>performance_history := idle_winning_history\<rparr>)))
     = \<lparr> momentum_weight = 0.6, forecast_weight = 0.4,
         strong_momentum_threshold = 10, medium_momentum_threshold = 5,
         aggressive_factor = 1.5 \<rparr>"
proof -
  let ?s = "(SharedState_init 0)\<lparr>performance_history := idle_winning_history\<rparr>"
  have g1: "\<not> 31 - last_optimization ?s < optimization_interval ?s"
    by (simp add: SharedState_init_def)
  have g2: "5 \<le> length (performance_history ?s)"
    by (simp add: idle_winning_history_def)
  have m: "mean (map perf_pnl_change (performance_history ?s)) = Inr (13 / 2)"
    by (simp add: mean_def idle_winning_history_def sample_perf_def)
  have gt: "(13 / 2 :: real) > 5" by simp
  have none: "\<forall>p \<in> set (performance_history ?s).
           \<not> (perf_trade_volume p \<noteq> 0 \<and> perf_pnl_change p > 0)"
    by (simp add: idle_winning_history_def sample_perf_def)
  show ?thesis
    using optimize_strategy_no_credit [OF g1 g2 m gt none]
    by (simp add: SharedState_init_def)
qed

section \<open>Properties of the session worker\<close>

text \<open>An inbound envelope with a data object whose event is \<open>finish\<close> is the game-over
  event: the worker reads the final PnL from \<open>data.pnl\<close> (0 when absent), reports it, and
  leaves its receive loop by raising \<open>CancelledError\<close>, with the shared state untouched
  and nothing sent. An envelope whose event is \<open>end\<close> matches no branch: nothing is sent
  or reported and the worker stays in its loop.\<close>

lemma finish_event_game_over:
  assumes "data r = Some d"
  shows "(event r = Some ''finish'' \<longrightarrow>
            receive_iteration conn_id (Decoded r) t_signal t_perf t_opt s
              = (s, [Print_game_over (dict_get (d_pnl d) 0)], Leave CancelledError))
       \<and> (event r = Some ''end'' \<longrightarrow>
            receive_iteration conn_id (Decoded r) t_signal t_perf t_opt s
              = (s, [], Continue))"
  using assms by (simp add: receive_iteration_def handle_message_def Let_def)

lemma end_event_ignored:
  "receive_iteration 0 (Decoded (game_over_envelope ''end'' 42)) 1 2 3 (SharedState_init 0)
     = (SharedState_init 0, [], Continue)"
  by (simp add: receive_iteration_def handle_message_def game_over_envelope_def)

text \<open>An exception that derives from \<open>Exception\<close>, such as the \<open>KeyError\<close> of a state
  event on a connection id without a ledger entry, is caught by the outer handler, and
  the task is created again for the same connection id.\<close>

lemma exception_reaches_reconnection:
  "is_Exception e \<Longrightarrow> handle_connection_exit conn_id e = Reconnect conn_id"
  by (simp add: handle_connection_exit_def)

lemma state_event_without_ledger_reconnects:
  assumes "data r = Some d" and "event r = Some ''state''"
    and "connection_performance s conn_id = None"
  shows "snd (snd (handle_connection_step conn_id (Decoded r) t_signal t_perf t_opt s))
           = Some (Reconnect conn_id)"
proof -
  from handle_state_without_ledger [OF assms(3), of d t_signal t_perf t_opt]
  obtain s1 where "handle_state conn_id d t_signal t_perf t_opt s = (s1, [], Some KeyError)"
    by blast
  with assms(1,2) show ?thesis
    by (simp add: handle_connection_step_def receive_iteration_def handle_message_def
        handle_connection_exit_def is_Exception_def)
qed

text \<open>For every \<open>finish\<close> envelope with a data object, the \<open>CancelledError\<close> raised by
  the game-over branch passes both \<open>except Exception\<close> handlers: the task ends with the
  exception, and the task for the connection id is not created again.\<close>

lemma finish_event_no_reconnection:
  assumes "data r = Some d" and "event r = Some ''finish''"
  shows "handle_connection_step conn_id (Decoded r) t_signal t_perf t_opt s
           = (s, [Print_game_over (dict_get (d_pnl d) 0)], Some (Task_raised CancelledError))"
  using assms
  by (simp add: handle_connection_step_def receive_iteration_def handle_message_def Let_def
      handle_connection_exit_def is_Exception_def)

text \<open>
  Claim C2. Every inbound envelope whose event is \<open>end\<close> or \<open>finish\<close>, with a data
  object, is the game-over event: the worker records the final PnL, leaves its receive
  loop, and hands control to the reconnection path for the same identity. The code run
  on the envelope \<open>{"event": "finish", "data": {"pnl": 42}}\<close> received by connection 0:
  the final PnL 42 is reported and the loop is left, but the task ends with
  \<open>CancelledError\<close> and no task for connection 0 is created again, where the claim
  and the comment above the \<open>raise\<close> expect the reconnection code to run.
\<close>

theorem finish_event_skips_reconnection:
  "handle_connection_step 0 (Decoded (game_over_envelope ''finish'' 42)) 1 2 3
       (SharedState_init 0)
     = (SharedState_init 0, [Print_game_over 42], Some (Task_raised CancelledError))
   \<and> snd (snd (handle_connection_step 0 (Decoded (game_over_envelope ''finish'' 42)) 1 2 3
       (SharedState_init 0))) \<noteq> Some (Reconnect 0)"
  by (simp add: handle_connection_step_def receive_iteration_def handle_message_def Let_def
      handle_connection_exit_def is_Exception_def game_over_envelope_def dict_get_def)

text \<open>
  Claim C7. For every puzzle event: a positive \<open>impact\<close> sends a trade of volume \<open>+3\<close>,
  a negative one a trade of volume \<open>-3\<close>, a zero or absent one no trade; in each of the
  three cases the skip message is sent afterwards.
\<close>

theorem puzzle_event_trade_and_skip:
  assumes "event r = Some ''puzzle''" and "data r = Some d"
  shows "(0 < dict_get (d_impact d) 0 \<longrightarrow>
            handle_message conn_id r t_signal t_perf t_opt s
              = (s, [Send (Trade_message 3), Send Skip_message], None))
       \<and> (dict_get (d_impact d) 0 < 0 \<longrightarrow>
            handle_message conn_id r t_signal t_perf t_opt s
              = (s, [Send (Trade_message (- 3)), Send Skip_message], None))
       \<and> (dict_get (d_impact d) 0 = 0 \<longrightarrow>
            handle_message conn_id r t_signal t_perf t_opt s
              = (s, [Send Skip_message], None))"
  using assms
  by (simp add: handle_message_def handle_puzzle_def handle_puzzle_impact_def Let_def)

theorem puzzle_event_trade_and_skip_witness:
  "handle_message 0 (puzzle_envelope (Some (- 7))) 1 2 3 (SharedState_init 0)
     = (SharedState_init 0, [Send (Trade_message (- 3)), Send Skip_message], None)
   \<and> handle_message 0 (puzzle_envelope (Some 4)) 1 2 3 (SharedState_init 0)
     = (SharedState_init 0, [Send (Trade_message 3), Send Skip_message], None)
   \<and> handle_message 0 (puzzle_envelope None) 1 2 3 (SharedState_init 0)
     = (SharedState_init 0, [Send Skip_message], None)"
proof -
  have e: "event (puzzle_envelope i) = Some ''puzzle''" for i
    by (simp add: puzzle_envelope_def)
  have d: "data (puzzle_envelope i) = Some (the (data (puzzle_envelope i)))" for i
    by (simp add: puzzle_envelope_def)
  show ?thesis
    using puzzle_event_trade_and_skip [OF e d, of "Some (- 7)" 0 1 2 3 "SharedState_init 0"]
      puzzle_event_trade_and_skip [OF e d, of "Some 4" 0 1 2 3 "SharedState_init 0"]
      puzzle_event_trade_and_skip [OF e d, of None 0 1 2 3 "SharedState_init 0"]
    by (simp add: puzzle_envelope_def dict_get_def)
qed

text \<open>
  Claim C10. For every puzzle event with a nonzero \<open>impact\<close> the volume sent is exactly
  \<open>+3\<close> or \<open>-3\<close>, whatever the position and the position limit are: the handler reads
  neither. So a buy at a position equal to any limit \<open>L\<close> leads above \<open>L\<close>, and a
  sell at position \<open>-L\<close> leads below \<open>-L\<close>.
\<close>

theorem puzzle_trade_not_clamped:
  assumes "event r = Some ''puzzle''" and "data r = Some d"
    and "d_impact d = Some impact" and "impact \<noteq> 0"
  shows "\<exists>v. fst (snd (handle_message conn_id r t_signal t_perf t_opt s))
              = [Send (Trade_message v), Send Skip_message]
           \<and> (v = 3 \<or> v = - 3)
           \<and> (0 < impact \<longrightarrow> v = 3 \<and> (\<forall>L > 0. \<not> L + v \<le> L))
           \<and> (impact < 0 \<longrightarrow> v = - 3 \<and> (\<forall>L > 0. \<not> - L \<le> - L + v))"
  using assms
  by (simp add: handle_message_def handle_puzzle_def handle_puzzle_impact_def Let_def
      dict_get_def)

theorem puzzle_trade_not_clamped_witness:
  "fst (snd (handle_message 0 (puzzle_envelope (Some 4)) 1 2 3 (SharedState_init 0)))
     = [Send (Trade_message 3), Send Skip_message]
   \<and> \<not> (3 :: int) + 3 \<le> 3"
proof -
  have e: "event (puzzle_envelope (Some 4)) = Some ''puzzle''"
    by (simp add: puzzle_envelope_def)
  have d: "data (puzzle_envelope (Some 4)) = Some (the (data (puzzle_envelope (Some 4))))"
    by (simp add: puzzle_envelope_def)
  have i: "d_impact (the (data (puzzle_envelope (Some 4)))) = Some 4"
    by (simp add: puzzle_envelope_def)
  have nz: "(4 :: int) \<noteq> 0" by simp
  show ?thesis
    using puzzle_trade_not_clamped [OF e d i nz, of 0 1 2 3 "SharedState_init 0"]
    by auto
qed

text \<open>
  Claim C8. For every state event, a performance record is appended to the shared
  performance history only when the connection's ledger already counts a trade
  (\<open>trades_made > 0\<close> when the event arrives): not on the event that carries the
  connection's first trade, and not before any trade. The ledger's \<open>last_pnl\<close> is set to
  the event's PnL on every state event.
\<close>

theorem handle_state_performance_record:
  assumes ledger: "connection_performance s conn_id = Some cp"
    and run: "handle_state conn_id d t_signal t_perf t_opt s = (s', effects, exc)"
    and vol: "v = fst (determine_trade_volume
                  (dict_get (d_price_forecast d) 0) (dict_get (d_momentum d) 0)
                  (dict_get (d_position d) 0) (dict_get (d_position_limit d) 3)
                  conn_id (strategy_params s) t_signal s)"
  shows "(trades_made cp \<le> 0 \<longrightarrow> performance_history s' = performance_history s)
       \<and> (trades_made cp > 0 \<longrightarrow>
            performance_history s' =
              deque_append (performance_history s)
                \<lparr> perf_conn_id = conn_id, perf_timestamp = t_perf,
                  perf_momentum = dict_get (d_momentum d) 0,
                  perf_forecast = dict_get (d_price_forecast d) 0,
                  perf_position = dict_get (d_position d) 0,
                  perf_trade_volume = v,
                  perf_pnl_change = dict_get (d_pnl d) 0 - last_pnl cp,
                  perf_price = dict_get (d_price d) 0,
                  perf_total_pnl = dict_get (d_pnl d) 0 \<rparr>)
       \<and> connection_performance s' conn_id =
            Some (cp\<lparr>last_pnl := dict_get (d_pnl d) 0,
                     trades_made := (if v \<noteq> 0 then trades_made cp + 1 else trades_made cp)\<rparr>)
       \<and> effects = (if v \<noteq> 0 then [Send (Trade_message v)] else [])
       \<and> exc = None"
proof -
  from handle_state_with_ledger [OF ledger vol, of t_perf t_opt] obtain s4 where
    hs: "handle_state conn_id d t_signal t_perf t_opt s
            = (snd (optimize_strategy t_opt s4),
               (if v \<noteq> 0 then [Send (Trade_message v)] else []),
               fst (optimize_strategy t_opt s4))"
    and p4: "performance_history s4 =
              (if trades_made cp > 0 then
                 deque_append (performance_history s)
                   \<lparr> perf_conn_id = conn_id, perf_timestamp = t_perf,
                     perf_momentum = dict_get (d_momentum d) 0,
                     perf_forecast = dict_get (d_price_forecast d) 0,
                     perf_position = dict_get (d_position d) 0,
                     perf_trade_volume = v,
                     perf_pnl_change = dict_get (d_pnl d) 0 - last_pnl cp,
                     perf_price = dict_get (d_price d) 0,
                     perf_total_pnl = dict_get (d_pnl d) 0 \<rparr>
               else performance_history s)"
    and c4: "connection_performance s4 conn_id =
              Some (cp\<lparr>last_pnl := dict_get (d_pnl d) 0,
                       trades_made := (if v \<noteq> 0 then trades_made cp + 1 else trades_made cp)\<rparr>)"
    by blast
  from hs run have s': "s' = snd (optimize_strategy t_opt s4)"
    and exc: "exc = fst (optimize_strategy t_opt s4)"
    and eff: "effects = (if v \<noteq> 0 then [Send (Trade_message v)] else [])" by auto
  from optimize_strategy_frame [of t_opt s4 exc s'] s' exc
  have fr: "exc = None" "performance_history s' = performance_history s4"
    "connection_performance s' = connection_performance s4" by auto
  show ?thesis
    using fr p4 c4 eff by simp
qed

lemma sample_state_data_get:
  "dict_get (d_price_forecast (sample_state_data f m p c)) 0 = f"
  "dict_get (d_momentum (sample_state_data f m p c)) 0 = m"
  "dict_get (d_position (sample_state_data f m p c)) 0 = p"
  "dict_get (d_position_limit (sample_state_data f m p c)) 3 = 3"
  "dict_get (d_price (sample_state_data f m p c)) 0 = 50"
  "dict_get (d_pnl (sample_state_data f m p c)) 0 = c"
  by (simp_all add: sample_state_data_def dict_get_def)

theorem handle_state_performance_record_witness:
  "performance_history
     (fst (handle_state 0 (sample_state_data 0.8 12 0 5) 1 2 3
        (init_connection 0 (SharedState_init 0)))) = []
   \<and> fst (snd (handle_state 0 (sample_state_data 0.8 12 0 5) 1 2 3
        (init_connection 0 (SharedState_init 0)))) = [Send (Trade_message 3)]
   \<and> connection_performance
     (fst (handle_state 0 (sample_state_data 0.8 12 0 5) 1 2 3
        (init_connection 0 (SharedState_init 0)))) 0
       = Some \<lparr> last_pnl = 5, trades_made = 1, successful_trades = 0 \<rparr>
   \<and> performance_history
     (fst (handle_state 0 (sample_state_data 0 0 3 12) 4 5 6 traded_once))
       = [\<lparr> perf_conn_id = 0, perf_timestamp = 5, perf_momentum = 0, perf_forecast = 0,
            perf_position = 3, perf_trade_volume = 0, perf_pnl_change = 7,
            perf_price = 50, perf_total_pnl = 12 \<rparr>]
   \<and> connection_performance
     (fst (handle_state 0 (sample_state_data 0 0 3 12) 4 5 6 traded_once)) 0
       = Some \<lparr> last_pnl = 12, trades_made = 1, successful_trades = 0 \<rparr>"
proof -
  let ?s0 = "init_connection 0 (SharedState_init 0)"
  let ?d1 = "sample_state_data 0.8 12 0 5"
  let ?d2 = "sample_state_data 0 0 3 12"
  let ?r1 = "handle_state 0 ?d1 1 2 3 ?s0"
  let ?r2 = "handle_state 0 ?d2 4 5 6 traded_once"
  have l1: "connection_performance ?s0 0
      = Some \<lparr> last_pnl = 0, trades_made = 0, successful_trades = 0 \<rparr>"
    by (simp add: init_connection_def SharedState_init_def)
  have p1: "performance_history ?s0 = []"
    by (simp add: init_connection_def SharedState_init_def)
  have sp1: "strategy_params ?s0 =
    \<lparr> momentum_weight = 0.6, forecast_weight = 0.4, strong_momentum_threshold = 10,
       medium_momentum_threshold = 5, aggressive_factor = 1.5 \<rparr>"
    by (simp add: init_connection_def SharedState_init_def)
  have run1: "?r1 = (fst ?r1, fst (snd ?r1), snd (snd ?r1))" by simp
  have v1: "3 = fst (determine_trade_volume
                  (dict_get (d_price_forecast ?d1) 0) (dict_get (d_momentum ?d1) 0)
                  (dict_get (d_position ?d1) 0) (dict_get (d_position_limit ?d1) 3)
                  0 (strategy_params ?s0) 1 ?s0)"
    using scenario_trade_volume [of 0 1 ?s0]
    by (simp only: sp1 sample_state_data_get)
  have l2: "connection_performance traded_once 0
      = Some \<lparr> last_pnl = 5, trades_made = 1, successful_trades = 0 \<rparr>"
    by (simp add: traded_once_def)
  have p2: "performance_history traded_once = []"
    by (simp add: traded_once_def SharedState_init_def)
  have run2: "?r2 = (fst ?r2, fst (snd ?r2), snd (snd ?r2))" by simp
  have v2: "0 = fst (determine_trade_volume
                  (dict_get (d_price_forecast ?d2) 0) (dict_get (d_momentum ?d2) 0)
                  (dict_get (d_position ?d2) 0) (dict_get (d_position_limit ?d2) 3)
                  0 (strategy_params traded_once) 4 traded_once)"
    by (simp add: determine_trade_volume_def sample_state_data_get)
  have first: "performance_history (fst ?r1) = []
      \<and> fst (snd ?r1) = [Send (Trade_message 3)]
      \<and> connection_performance (fst ?r1) 0
          = Some \<lparr> last_pnl = 5, trades_made = 1, successful_trades = 0 \<rparr>"
    using handle_state_performance_record [OF l1 run1 v1]
    by (simp add: p1 sample_state_data_get)
  have second: "performance_history (fst ?r2)
       = [\<lparr> perf_conn_id = 0, perf_timestamp = 5, perf_momentum = 0, perf_forecast = 0,
            perf_position = 3, perf_trade_volume = 0, perf_pnl_change = 7,
            perf_price = 50, perf_total_pnl = 12 \<rparr>]
      \<and> connection_performance (fst ?r2) 0
       = Some \<lparr> last_pnl = 12, trades_made = 1, successful_trades = 0 \<rparr>"
    using handle_state_performance_record [OF l2 run2 v2]
    by (simp add: p2 sample_state_data_get deque_append_def HISTORY_SIZE_def)
  from first second show ?thesis by simp
qed

end
